theory Spec2Isabelle
  imports Main
begin

section \<open>Python values\<close>

text \<open>
  A Python \<^verbatim>\<open>str\<close> is a sequence of Unicode code points; slicing and \<^verbatim>\<open>len\<close> count
  code points. A code point is a natural number here, so every title and body text is
  covered, and \<open>U\<close> turns an ASCII literal of the source into such a sequence.
\<close>

type_synonym str = "nat list"

definition U :: "string \<Rightarrow> str" where
  "U s = map of_char s"

text \<open>The exceptions the program can meet. \<open>FileError\<close> carries what a file-system call
  raised: an \<^verbatim>\<open>OSError\<close> or a \<^verbatim>\<open>UnicodeEncodeError\<close>, with its message; neither is a
  \<^verbatim>\<open>RequestException\<close>.\<close>

datatype fs_error = OSError str | UnicodeEncodeError str

datatype exn = RequestException str | IndexError | KeyError str | TypeError | FileError fs_error

text \<open>Parsed JSON, as \<^verbatim>\<open>response.json()\<close> and \<^verbatim>\<open>json.dumps\<close> see it. An object keeps
  its members in order.\<close>

datatype json =
    JNull
  | JBool bool
  | JNum int
  | JStr str
  | JArr "json list"
  | JObj "(str \<times> json) list"

text \<open>\<^verbatim>\<open>str(n)\<close> of a non-negative integer, as the f-strings format \<^verbatim>\<open>idx+1\<close>.\<close>

fun str_nat :: "nat \<Rightarrow> str" where
  "str_nat n = (if n < 10 then [48 + n] else str_nat (n div 10) @ [48 + n mod 10])"

declare str_nat.simps [simp del]

text \<open>\<^verbatim>\<open>s.replace(a, b)\<close> for single characters \<open>a\<close> and \<open>b\<close>.\<close>

definition replace :: "nat \<Rightarrow> nat \<Rightarrow> str \<Rightarrow> str" where
  "replace a b s = map (\<lambda>c. if c = a then b else c) s"

definition startswith :: "str \<Rightarrow> str \<Rightarrow> bool" where
  "startswith s p = (take (length p) s = p)"

text \<open>\<^verbatim>\<open>d.get(k, default)\<close> on a key that may be absent.\<close>

definition get_default :: "'a option \<Rightarrow> 'a \<Rightarrow> 'a" where
  "get_default v d = (case v of None \<Rightarrow> d | Some x \<Rightarrow> x)"

text \<open>\<^verbatim>\<open>xs[0]\<close>: an empty list raises \<^verbatim>\<open>IndexError\<close>.\<close>

definition subscript0 :: "'a list \<Rightarrow> exn + 'a" where
  "subscript0 xs = (case xs of [] \<Rightarrow> Inl IndexError | x # _ \<Rightarrow> Inr x)"

text \<open>\<^verbatim>\<open>v["k"]\<close> on a parsed JSON value: a missing key of an object raises
  \<^verbatim>\<open>KeyError\<close>, any other value cannot be subscripted by a string.\<close>

definition subscript_key :: "json \<Rightarrow> str \<Rightarrow> exn + json" where
  "subscript_key v k =
     (case v of
        JObj kvs \<Rightarrow> (case map_of kvs k of None \<Rightarrow> Inl (KeyError k) | Some x \<Rightarrow> Inr x)
      | _ \<Rightarrow> Inl TypeError)"

text \<open>\<^verbatim>\<open>a or b\<close> on optional strings: \<^verbatim>\<open>None\<close> and the empty string are falsy.\<close>

definition truthy :: "str option \<Rightarrow> bool" where
  "truthy v = (case v of None \<Rightarrow> False | Some s \<Rightarrow> s \<noteq> [])"

definition py_or :: "str option \<Rightarrow> str option \<Rightarrow> str option" where
  "py_or a b = (if truthy a then a else b)"


section \<open>The network\<close>

text \<open>
  What \<^verbatim>\<open>requests.get\<close> gives back: it raises a \<^verbatim>\<open>RequestException\<close> (with its
  message) or returns a response. \<open>resp_json\<close> is the outcome of \<^verbatim>\<open>response.json()\<close>.
  The network is a parameter: its \<open>k\<close>-th request of a call, for a URL and query
  parameters, has some reply.
\<close>

record response =
  status_code :: nat
  reason :: str
  resp_url :: str
  resp_text :: str
  resp_content :: "nat list"
  resp_json :: "exn + json"

datatype reply = Raises str | Returns response

type_synonym network = "nat \<Rightarrow> str \<Rightarrow> (str \<times> json) list \<Rightarrow> reply"

text \<open>\<^verbatim>\<open>response.raise_for_status()\<close>: for the statuses 400 to 599 it raises an
  \<^verbatim>\<open>HTTPError\<close>, which is a \<^verbatim>\<open>RequestException\<close>; the result is its message.\<close>

definition raise_for_status :: "response \<Rightarrow> str option" where
  "raise_for_status r =
     (if 400 \<le> status_code r \<and> status_code r < 500 then
        Some (str_nat (status_code r) @ U '' Client Error: '' @ reason r @ U '' for url: '' @ resp_url r)
      else if 500 \<le> status_code r \<and> status_code r < 600 then
        Some (str_nat (status_code r) @ U '' Server Error: '' @ reason r @ U '' for url: '' @ resp_url r)
      else None)"

text \<open>The two lines \<^verbatim>\<open>response = requests.get(...)\<close> and
  \<^verbatim>\<open>response.raise_for_status()\<close>: the message of the \<^verbatim>\<open>RequestException\<close> raised, or
  the response.\<close>

definition get_checked :: "network \<Rightarrow> nat \<Rightarrow> str \<Rightarrow> (str \<times> json) list \<Rightarrow> str + response" where
  "get_checked net k u params =
     (case net k u params of
        Raises e \<Rightarrow> Inl e
      | Returns response \<Rightarrow>
          (case raise_for_status response of Some e \<Rightarrow> Inl e | None \<Rightarrow> Inr response))"


section \<open>The file system and standard output\<close>

text \<open>
  The world a call changes: the directories that exist, the files with their contents,
  and the lines printed. A directory or file is identified with the path string the
  program uses (POSIX paths). A file written by \<^verbatim>\<open>json.dumps(v) + "\n"\<close> is kept as the
  value \<open>v\<close> that was dumped.
\<close>

datatype content = Text str | Bytes "nat list" | JsonLine json

record world =
  dirs :: "str set"
  files :: "str \<rightharpoonup> content"
  stdout :: "str list"

definition sep :: nat where
  "sep = 47"

definition print :: "str \<Rightarrow> world \<Rightarrow> world" where
  "print line w = w\<lparr>stdout := stdout w @ [line]\<rparr>"

text \<open>The proper ancestors of a path: its prefix before each separator.\<close>

fun ancestors :: "str \<Rightarrow> str \<Rightarrow> str list" where
  "ancestors pre [] = []"
| "ancestors pre (c # cs) =
     (if c = sep \<and> pre \<noteq> [] then [pre] else []) @ ancestors (pre @ [c]) cs"

text \<open>
  Whether a file-system call is carried out is not the program's decision. The file
  system is a parameter, as the network is: for a call and the world it meets, it
  carries the call out (\<open>None\<close>) or raises an \<^verbatim>\<open>OSError\<close> (a name that is too long, a
  path that exists as a file, a missing permission) or a \<^verbatim>\<open>UnicodeEncodeError\<close> (a
  path or a text that cannot be encoded). With the exception it gives the world the
  failed call leaves behind (\<^verbatim>\<open>makedirs\<close> may have made some ancestors, \<^verbatim>\<open>open\<close> may
  have made or emptied the file before the write failed).
\<close>

datatype fs_call = Makedirs str | Write str content

type_synonym filesystem = "fs_call \<Rightarrow> world \<Rightarrow> (fs_error \<times> world) option"

text \<open>The world after \<^verbatim>\<open>os.makedirs(p, exist_ok=True)\<close> was carried out, and the call.\<close>

definition made_dirs :: "str \<Rightarrow> world \<Rightarrow> world" where
  "made_dirs p w = w\<lparr>dirs := dirs w \<union> set (ancestors [] p) \<union> {p}\<rparr>"

definition makedirs :: "filesystem \<Rightarrow> str \<Rightarrow> world \<Rightarrow> exn option \<times> world" where
  "makedirs fs p w =
     (case fs (Makedirs p) w of
        Some (e, w') \<Rightarrow> (Some (FileError e), w')
      | None \<Rightarrow> (None, made_dirs p w))"

text \<open>The world after \<^verbatim>\<open>with open(p, "w") as f: f.write(c)\<close> was carried out, and the
  call.\<close>

definition written :: "str \<Rightarrow> content \<Rightarrow> world \<Rightarrow> world" where
  "written p c w = w\<lparr>files := (files w)(p \<mapsto> c)\<rparr>"

definition write_file :: "filesystem \<Rightarrow> str \<Rightarrow> content \<Rightarrow> world \<Rightarrow> exn option \<times> world" where
  "write_file fs p c w =
     (case fs (Write p c) w of
        Some (e, w') \<Rightarrow> (Some (FileError e), w')
      | None \<Rightarrow> (None, written p c w))"

text \<open>Statements in sequence: the second runs in the world the first leaves, unless the
  first raised.\<close>

definition and_then ::
  "exn option \<times> world \<Rightarrow> (world \<Rightarrow> exn option \<times> world) \<Rightarrow> exn option \<times> world" where
  "and_then r f = (case r of (None, w) \<Rightarrow> f w | (Some e, w) \<Rightarrow> (Some e, w))"

text \<open>\<^verbatim>\<open>os.path.join(a, b)\<close> of \<^verbatim>\<open>posixpath\<close>\<close>

definition path_join :: "str \<Rightarrow> str \<Rightarrow> str" where
  "path_join a b =
     (if startswith b [sep] then b
      else if a = [] \<or> last a = sep then a @ b
      else a @ [sep] @ b)"


section \<open>\<^verbatim>\<open>fetch_books\<close>\<close>

definition base_url :: str where
  "base_url = U ''https://gutendex.com/books/''"

definition params :: "str \<Rightarrow> int \<Rightarrow> str \<Rightarrow> (str \<times> json) list" where
  "params language limit search_keyword =
     [(U ''language'', JStr language), (U ''search'', JStr search_keyword), (U ''limit'', JNum limit)]"

text \<open>The result is the value returned or the exception raised to the caller, and the
  world with what was printed. The handler catches a \<^verbatim>\<open>RequestException\<close> and nothing
  else.\<close>

definition fetch_books :: "network \<Rightarrow> str \<Rightarrow> int \<Rightarrow> str \<Rightarrow> world \<Rightarrow> (exn + json) \<times> world" where
  "fetch_books net language limit search_keyword w =
     (let attempt =
            (case get_checked net 0 base_url (params language limit search_keyword) of
               Inl e \<Rightarrow> Inl (RequestException e)
             | Inr response \<Rightarrow>
                 (case resp_json response of
                    Inl e \<Rightarrow> Inl e
                  | Inr body \<Rightarrow> subscript_key body (U ''results'')))
      in case attempt of
           Inl (RequestException e) \<Rightarrow> (Inr (JArr []), print (U ''Error fetching data: '' @ e) w)
         | Inl e \<Rightarrow> (Inl e, w)
         | Inr results \<Rightarrow> (Inr results, w))"


section \<open>\<^verbatim>\<open>roman_numeral\<close>\<close>

definition val :: "int list" where
  "val = [1000, 900, 500, 400, 100, 90, 50, 40, 10, 9, 5, 4, 1]"

definition syms :: "str list" where
  "syms = [U ''M'', U ''CM'', U ''D'', U ''CD'', U ''C'', U ''XC'', U ''L'', U ''XL'',
           U ''X'', U ''IX'', U ''V'', U ''IV'', U ''I'']"

text \<open>The inner \<^verbatim>\<open>for _ in range(k)\<close>: \<open>k\<close> rounds on \<open>(roman_num, n)\<close>.\<close>

fun roman_for :: "nat \<Rightarrow> nat \<Rightarrow> str \<times> int \<Rightarrow> str \<times> int" where
  "roman_for i 0 (roman_num, n) = (roman_num, n)"
| "roman_for i (Suc k) (roman_num, n) = roman_for i k (roman_num @ syms ! i, n - val ! i)"

text \<open>The outer \<^verbatim>\<open>while n > 0\<close>. Reading \<^verbatim>\<open>val[i]\<close> beyond the table raises
  \<^verbatim>\<open>IndexError\<close>, which ends the loop as well.\<close>

function roman_while :: "nat \<Rightarrow> str \<times> int \<Rightarrow> exn + str" where
  "roman_while i (roman_num, n) =
     (if n > 0 then
        (if i < length val
         then roman_while (i + 1) (roman_for i (nat (n div val ! i)) (roman_num, n))
         else Inl IndexError)
      else Inr roman_num)"
  by pat_completeness auto
termination
  by (relation "measure (\<lambda>(i, s). length val - i)") auto

declare roman_while.simps [simp del]

definition roman_numeral :: "int \<Rightarrow> exn + str" where
  "roman_numeral n = roman_while 0 ([], n)"

text \<open>
  The standard Roman-to-integer parser the round trip is measured against (it is not
  part of the program): the values of the symbols are added from left to right, and a
  symbol standing before a larger one is subtracted.
\<close>

definition roman_value :: "nat \<Rightarrow> int" where
  "roman_value c =
     (if c = of_char CHR ''I'' then 1 else if c = of_char CHR ''V'' then 5
      else if c = of_char CHR ''X'' then 10 else if c = of_char CHR ''L'' then 50
      else if c = of_char CHR ''C'' then 100 else if c = of_char CHR ''D'' then 500
      else if c = of_char CHR ''M'' then 1000 else 0)"

fun roman_to_int :: "str \<Rightarrow> int" where
  "roman_to_int [] = 0"
| "roman_to_int [c] = roman_value c"
| "roman_to_int (c # d # cs) =
     (if roman_value c < roman_value d then roman_to_int (d # cs) - roman_value c
      else roman_value c + roman_to_int (d # cs))"


section \<open>The chapter split\<close>

text \<open>
  The fragment of regular expressions the program uses: an item matches one character
  of a class, or one or more of them, greedily, giving characters back when the rest of
  the pattern fails. \<open>re_match\<close> matches at the start of the text and returns what is
  left after the match.
\<close>

datatype re_item = One "nat \<Rightarrow> bool" | Many "nat \<Rightarrow> bool"

fun re_match :: "re_item list \<Rightarrow> str \<Rightarrow> str option" where
  "re_match [] s = Some s"
| "re_match (One P # r) [] = None"
| "re_match (One P # r) (c # cs) = (if P c then re_match r cs else None)"
| "re_match (Many P # r) [] = None"
| "re_match (Many P # r) (c # cs) =
     (if P c then (case re_match (Many P # r) cs of Some t \<Rightarrow> Some t | None \<Rightarrow> re_match r cs)
      else None)"

text \<open>
  \<^verbatim>\<open>re.split\<close> for a pattern without groups: the text is scanned from the left, each
  match ends the segment collected so far, and the scan goes on after the match. Every
  item consumes a character, so a match of a non-empty pattern is never empty; the
  test on the lengths says so for the termination of the scan.
\<close>

function re_split_from :: "re_item list \<Rightarrow> str \<Rightarrow> str \<Rightarrow> str list" where
  "re_split_from p seg [] = [seg]"
| "re_split_from p seg (c # cs) =
     (case re_match p (c # cs) of
        None \<Rightarrow> re_split_from p (seg @ [c]) cs
      | Some rest \<Rightarrow>
          if length rest \<le> length cs then seg # re_split_from p [] rest
          else re_split_from p (seg @ [c]) cs)"
  by pat_completeness auto
termination
  by (relation "measure (\<lambda>(p, seg, s). length s)") auto

definition re_split :: "re_item list \<Rightarrow> str \<Rightarrow> str list" where
  "re_split p s = re_split_from p [] s"


definition literal :: "str \<Rightarrow> re_item list" where
  "literal s = map (\<lambda>c. One (\<lambda>x. x = c)) s"

text \<open>
  The pattern of the source is the raw string \<^verbatim>\<open>r'Chapter\\s+\\d+'\<close>. In a raw string
  the two backslashes stay two characters, and the regular expression reads them as an
  escaped backslash: the pattern is \<^verbatim>\<open>Chapter\<close>, a backslash (code point 92), one or more
  \<^verbatim>\<open>s\<close>, a backslash, one or more \<^verbatim>\<open>d\<close>.
\<close>

definition chapter_pattern :: "re_item list" where
  "chapter_pattern =
     literal (U ''Chapter'') @
     [One (\<lambda>x. x = 92), Many (\<lambda>x. x = of_char CHR ''s''),
      One (\<lambda>x. x = 92), Many (\<lambda>x. x = of_char CHR ''d'')]"

text \<open>
  The pattern as the specification words it, for comparison: \<^verbatim>\<open>Chapter\<close> followed by one
  or more whitespace characters and one or more digits (\<^verbatim>\<open>Chapter\s+\d+\<close>).
\<close>

definition is_space :: "nat \<Rightarrow> bool" where
  "is_space c = (c = 32 \<or> (9 \<le> c \<and> c \<le> 13))"

definition is_digit :: "nat \<Rightarrow> bool" where
  "is_digit c = (48 \<le> c \<and> c \<le> 57)"

definition spec_chapter_pattern :: "re_item list" where
  "spec_chapter_pattern = literal (U ''Chapter'') @ [Many is_space, Many is_digit]"


section \<open>\<^verbatim>\<open>download_book\<close>\<close>

text \<open>
  A book record of the catalogue, with a field for each key the program reads; a key
  may be absent (\<open>None\<close>). The key \<^verbatim>\<open>formats\<close> maps a MIME type to a URL and keeps the
  order of its entries, which \<^verbatim>\<open>items()\<close> follows.
\<close>

record person =
  key_name :: "str option"

record book =
  key_title :: "str option"
  key_authors :: "person list option"
  key_languages :: "str list option"
  key_formats :: "(str \<times> str) list option"

definition reserved :: str where
  "reserved = U ''<>:'' @ [34] @ U ''/'' @ [92] @ U ''|?*''"

text \<open>\<^verbatim>\<open>''.join(c for c in s if c not in "<>:\"/\\|?*")\<close>\<close>

definition sanitize :: "str \<Rightarrow> str" where
  "sanitize s = filter (\<lambda>c. c \<notin> set reserved) s"

text \<open>Lines 50 to 53: the fields taken from the record.\<close>

definition book_title :: "book \<Rightarrow> str" where
  "book_title b = take 10 (replace sep 45 (get_default (key_title b) (U ''Unknown Title'')))"

definition book_author :: "book \<Rightarrow> exn + str" where
  "book_author b =
     (case subscript0 (get_default (key_authors b) [\<lparr>key_name = None\<rparr>]) of
        Inl e \<Rightarrow> Inl e
      | Inr a \<Rightarrow> Inr (replace sep 45 (get_default (key_name a) (U ''Unknown Author''))))"

definition book_language :: "book \<Rightarrow> exn + str" where
  "book_language b = subscript0 (get_default (key_languages b) [U ''Unknown''])"

definition book_download_url :: "book \<Rightarrow> str option" where
  "book_download_url b =
     py_or (map_of (get_default (key_formats b) []) (U ''text/plain''))
           (map_of (get_default (key_formats b) []) (U ''text/html''))"

text \<open>Lines 68 and 72: the names of the book's directory and content file.\<close>

definition folder_name :: "str \<Rightarrow> str \<Rightarrow> str" where
  "folder_name title author = sanitize title @ U '' - '' @ sanitize author"

definition file_name :: "str \<Rightarrow> str \<Rightarrow> str" where
  "file_name title author = sanitize title @ U ''-'' @ sanitize author @ U ''.html''"

text \<open>The path of the book directory, the \<^verbatim>\<open>book_folder\<close> of line 68, for the
  statements below.\<close>

definition book_folder_of :: "str \<Rightarrow> str \<Rightarrow> str \<Rightarrow> str" where
  "book_folder_of output_dir title author = path_join output_dir (folder_name title author)"

text \<open>Lines 79 to 86. The two calls \<^verbatim>\<open>roman_numeral(i+1)\<close> of one round have the same
  argument and are bound once.\<close>

fun save_chapters :: "filesystem \<Rightarrow> str \<Rightarrow> nat \<Rightarrow> str list \<Rightarrow> world \<Rightarrow> exn option \<times> world" where
  "save_chapters fs book_folder i [] w = (None, w)"
| "save_chapters fs book_folder i (chapter_content # rest) w =
     (case roman_numeral (int i + 1) of
        Inl e \<Rightarrow> (Some e, w)
      | Inr r \<Rightarrow>
          (let chapter_folder = path_join book_folder (U ''Chapter_'' @ r);
               chapter_file_path = path_join chapter_folder (U ''Chapter_'' @ r @ U ''.txt'')
           in and_then (makedirs fs chapter_folder w) (\<lambda>w1.
              and_then (write_file fs chapter_file_path (Text chapter_content) w1) (\<lambda>w2.
              save_chapters fs book_folder (i + 1) rest w2))))"

text \<open>Lines 96 and 100: the path of the image at index \<open>idx\<close> and the line printed when
  its request fails.\<close>

definition image_path :: "str \<Rightarrow> nat \<Rightarrow> str" where
  "image_path images_folder idx =
     path_join images_folder (U ''image_'' @ str_nat (idx + 1) @ U ''.jpg'')"

definition image_error_line :: "str \<Rightarrow> str \<Rightarrow> nat \<Rightarrow> str \<Rightarrow> str" where
  "image_error_line title author idx e =
     U ''Error downloading image '' @ str_nat (idx + 1) @ U '' for '' @ title
     @ U '' by '' @ author @ U '': '' @ e"

text \<open>Lines 92 to 100. The image at index \<open>idx\<close> is request \<open>idx + 1\<close> of the call; a
  failed request is printed and the loop goes on. The inner handler catches a
  \<^verbatim>\<open>RequestException\<close> only, so what the write raises leaves the loop.\<close>

fun download_images ::
  "filesystem \<Rightarrow> network \<Rightarrow> str \<Rightarrow> str \<Rightarrow> str \<Rightarrow> nat \<Rightarrow> str list \<Rightarrow> world \<Rightarrow> exn option \<times> world" where
  "download_images fs net images_folder title author idx [] w = (None, w)"
| "download_images fs net images_folder title author idx (image_url # rest) w =
     (case get_checked net (idx + 1) image_url [] of
        Inr image_response \<Rightarrow>
          and_then
            (write_file fs (image_path images_folder idx) (Bytes (resp_content image_response)) w)
            (\<lambda>w'. download_images fs net images_folder title author (idx + 1) rest w')
      | Inl e \<Rightarrow>
          download_images fs net images_folder title author (idx + 1) rest
            (print (image_error_line title author idx e) w))"

text \<open>Lines 110 to 115: the chapter descriptors for \<^verbatim>\<open>i in range(i, i + k)\<close>.\<close>

fun chapter_entries :: "nat \<Rightarrow> nat \<Rightarrow> exn + json list" where
  "chapter_entries i 0 = Inr []"
| "chapter_entries i (Suc k) =
     (case roman_numeral (int i + 1) of
        Inl e \<Rightarrow> Inl e
      | Inr r \<Rightarrow>
          (case chapter_entries (i + 1) k of
             Inl e \<Rightarrow> Inl e
           | Inr es \<Rightarrow>
               Inr (JObj [(U ''chapter_number'', JStr r),
                          (U ''local_file_path'',
                           JStr (path_join (U ''Chapter_'' @ r) (U ''Chapter_'' @ r @ U ''.txt'')))]
                    # es)))"

text \<open>Lines 116 to 118: the image paths for \<^verbatim>\<open>idx in range(idx, idx + k)\<close>.\<close>

fun image_entries :: "nat \<Rightarrow> nat \<Rightarrow> json list" where
  "image_entries idx 0 = []"
| "image_entries idx (Suc k) =
     JStr (path_join (U ''images'') (U ''image_'' @ str_nat (idx + 1) @ U ''.jpg''))
     # image_entries (idx + 1) k"

definition image_urls_of :: "book \<Rightarrow> str list" where
  "image_urls_of b =
     map snd (filter (\<lambda>(key, url). startswith key (U ''image/'')) (get_default (key_formats b) []))"

text \<open>Lines 103 to 119: the metadata object, given its chapter descriptors and image
  paths.\<close>

definition metadata :: "str \<Rightarrow> str \<Rightarrow> str \<Rightarrow> str \<Rightarrow> str \<Rightarrow> json list \<Rightarrow> json list \<Rightarrow> json" where
  "metadata title author language download_url file_path chapters images =
     JObj [(U ''title'', JStr title),
           (U ''author'', JStr author),
           (U ''language'', JStr language),
           (U ''download_url'', JStr download_url),
           (U ''local_file_path'', JStr file_path),
           (U ''source'', JStr (U ''Project Gutenberg'')),
           (U ''chapters'', JArr chapters),
           (U ''images'', JArr images)]"

text \<open>Lines 60 to 124, the body of the \<^verbatim>\<open>try\<close>: the exception that leaves it, if any,
  and the world at that moment.\<close>

definition try_body ::
  "filesystem \<Rightarrow> network \<Rightarrow> book \<Rightarrow> str \<Rightarrow> str \<Rightarrow> str \<Rightarrow> str \<Rightarrow> str \<Rightarrow> world \<Rightarrow>
   exn option \<times> world" where
  "try_body fs net b output_dir title author language download_url w =
     (case get_checked net 0 download_url [] of
        Inl e \<Rightarrow> (Some (RequestException e), w)
      | Inr response \<Rightarrow>
          (let book_folder = path_join output_dir (folder_name title author);
               file_path = path_join book_folder (file_name title author);
               chapters = re_split chapter_pattern (resp_text response);
               image_urls = image_urls_of b;
               images_folder = path_join book_folder (U ''images'');
               metadata_file = path_join book_folder (U ''metadata.json'')
           in and_then (makedirs fs book_folder w) (\<lambda>w1.
              and_then (write_file fs file_path (Text (resp_text response)) w1) (\<lambda>w2.
              and_then (save_chapters fs book_folder 0 chapters w2) (\<lambda>w3.
              and_then (makedirs fs images_folder w3) (\<lambda>w4.
              and_then (download_images fs net images_folder title author 0 image_urls w4) (\<lambda>w5.
              case chapter_entries 0 (length chapters) of
                Inl e \<Rightarrow> (Some e, w5)
              | Inr entries \<Rightarrow>
                  and_then
                    (write_file fs metadata_file
                       (JsonLine (metadata title author language download_url file_path
                                    entries (image_entries 0 (length image_urls)))) w5)
                    (\<lambda>w6. (None, print (U ''Downloaded: '' @ title @ U '' by '' @ author) w6)))))))))"

text \<open>
  The whole function: the exception raised to the caller, if any, and the world it
  leaves. Lines 51 and 52 stand before the \<^verbatim>\<open>try\<close>; the handler of line 125 catches
  a \<^verbatim>\<open>RequestException\<close> and nothing else.
\<close>

definition download_book ::
  "filesystem \<Rightarrow> network \<Rightarrow> book \<Rightarrow> str \<Rightarrow> world \<Rightarrow> exn option \<times> world" where
  "download_book fs net b output_dir w =
     (let title = book_title b in
      case book_author b of
        Inl e \<Rightarrow> (Some e, w)
      | Inr author \<Rightarrow>
          (case book_language b of
             Inl e \<Rightarrow> (Some e, w)
           | Inr language \<Rightarrow>
               (case book_download_url b of
                  None \<Rightarrow>
                    (None, print (U ''No downloadable format found for '' @ title @ U '' by '' @ author) w)
                | Some download_url \<Rightarrow>
                    if download_url = [] then
                      (None, print (U ''No downloadable format found for '' @ title @ U '' by '' @ author) w)
                    else
                      (case try_body fs net b output_dir title author language download_url w of
                         (Some (RequestException e), w') \<Rightarrow>
                           (None, print (U ''Error downloading '' @ title @ U '' by '' @ author
                                         @ U '': '' @ e) w')
                       | (raised, w') \<Rightarrow> (raised, w')))))"



section \<open>Auxiliary definitions for the proofs\<close>

text \<open>What the loop of \<open>roman_numeral\<close> computes, as a recursion over the table of
  values and symbols, and the remainder it leaves.\<close>

fun greedy :: "(int \<times> str) list \<Rightarrow> int \<Rightarrow> str" where
  "greedy [] n = []"
| "greedy ((v, s) # t) n = concat (replicate (nat (n div v)) s) @ greedy t (n mod v)"

fun leftover :: "(int \<times> str) list \<Rightarrow> int \<Rightarrow> int" where
  "leftover [] n = n"
| "leftover ((v, s) # t) n = leftover t (n mod v)"

text \<open>The value of the first symbol of a numeral, and the tables on which the parser
  adds up symbol by symbol: no symbol is followed by one with a larger first
  character than its own last character.\<close>


definition hdval :: "str \<Rightarrow> int" where
  "hdval s = (case s of [] \<Rightarrow> 0 | c # _ \<Rightarrow> roman_value c)"

fun additive :: "int \<Rightarrow> (int \<times> str) list \<Rightarrow> bool" where
  "additive cap [] = True"
| "additive cap ((v, s) # t) =
     (0 < v \<and> s \<noteq> [] \<and> hdval s \<le> cap \<and> hdval s \<le> roman_value (last s) \<and>
      (\<forall>rest. hdval rest \<le> roman_value (last s) \<longrightarrow>
         roman_to_int (s @ rest) = v + roman_to_int rest) \<and>
      additive (min cap (roman_value (last s))) t)"


text \<open>A file system that carries out every call.\<close>

definition fs_ok :: filesystem where
  "fs_ok c w = None"

text \<open>The world a download leaves when its main request succeeded and every file-system
  call was carried out: the directories and files of lines 69 to 122, in their order.\<close>

definition run_world ::
  "network \<Rightarrow> book \<Rightarrow> str \<Rightarrow> str \<Rightarrow> str \<Rightarrow> str \<Rightarrow> response \<Rightarrow> json list \<Rightarrow> world \<Rightarrow> world" where
  "run_world net b out a l u resp es w =
     print (U ''Downloaded: '' @ book_title b @ U '' by '' @ a)
       (written (path_join (book_folder_of out (book_title b) a) (U ''metadata.json''))
          (JsonLine (metadata (book_title b) a l u
               (path_join (book_folder_of out (book_title b) a) (file_name (book_title b) a))
               es (image_entries 0 (length (image_urls_of b)))))
          (snd (download_images fs_ok net (path_join (book_folder_of out (book_title b) a) (U ''images''))
             (book_title b) a 0 (image_urls_of b)
             (made_dirs (path_join (book_folder_of out (book_title b) a) (U ''images''))
                (snd (save_chapters fs_ok (book_folder_of out (book_title b) a) 0
                   (re_split chapter_pattern (resp_text resp))
                   (written (path_join (book_folder_of out (book_title b) a) (file_name (book_title b) a))
                      (Text (resp_text resp))
                      (made_dirs (book_folder_of out (book_title b) a) w))))))))"


section \<open>Inputs of the examples\<close>

definition ok_response :: "nat \<Rightarrow> json \<Rightarrow> response" where
  "ok_response code body = \<lparr>status_code = code, reason = [], resp_url = [], resp_text = [],
     resp_content = [], resp_json = Inr body\<rparr>"


definition empty_world :: world where
  "empty_world = \<lparr>dirs = {}, files = Map.empty, stdout = []\<rparr>"


text \<open>Records of the catalogue with an empty list of authors or of languages, and one
  that has neither and no text format.\<close>

definition book_no_authors :: book where
  "book_no_authors = \<lparr>key_title = Some (U ''Beowulf''), key_authors = Some [],
     key_languages = Some [U ''en''],
     key_formats = Some [(U ''text/plain'', U ''http://example.org/16328.txt'')]\<rparr>"

definition book_no_languages :: book where
  "book_no_languages = \<lparr>key_title = Some (U ''Beowulf''),
     key_authors = Some [\<lparr>key_name = Some (U ''Anonymous'')\<rparr>],
     key_languages = Some [],
     key_formats = Some [(U ''text/plain'', U ''http://example.org/16328.txt'')]\<rparr>"

definition book_no_authors_no_format :: book where
  "book_no_authors_no_format = \<lparr>key_title = Some (U ''Beowulf''), key_authors = Some [],
     key_languages = Some [U ''en''],
     key_formats = Some [(U ''audio/mpeg'', U ''http://example.org/16328.mp3'')]\<rparr>"

text \<open>A body text, a response that carries it, a record with a text format and two
  image formats, and networks: one that answers every request, one where every request
  fails, and one where the second image request fails.\<close>

definition example_body :: str where
  "example_body = U ''Intro text Chapter 1 body one Chapter 2 body two''"

definition text_response :: "str \<Rightarrow> response" where
  "text_response t = \<lparr>status_code = 200, reason = U ''OK'', resp_url = [], resp_text = t,
     resp_content = t, resp_json = Inl (RequestException (U ''Expecting value''))\<rparr>"

definition book_tale :: book where
  "book_tale = \<lparr>key_title = Some (U ''A Tale: of Two Cities''),
     key_authors = Some [\<lparr>key_name = Some (U ''Dickens, Charles'')\<rparr>],
     key_languages = Some [U ''en''],
     key_formats = Some [(U ''text/plain'', U ''http://example.org/98.txt''),
                         (U ''image/jpeg'', U ''http://example.org/98.jpg''),
                         (U ''image/png'', U ''http://example.org/98.png'')]\<rparr>"

definition net_ok :: network where
  "net_ok k u ps = Returns (text_response example_body)"








section \<open>Properties of \<open>roman_numeral\<close>\<close>

lemma roman_for_eq:
  "roman_for i k (r, n) = (r @ concat (replicate k (syms ! i)), n - int k * val ! i)"
  by (induction k arbitrary: r n) (simp_all add: algebra_simps)

lemma val_pos: "i < length val \<Longrightarrow> 0 < val ! i"
  by (auto simp: val_def less_Suc_eq numeral_eq_Suc nth_Cons')

lemma val_last: "val ! 12 = 1" by (simp add: val_def)

lemma length_syms: "length syms = length val" by (simp add: syms_def val_def)

lemma drop_table:
  "i < length val \<Longrightarrow> drop i (zip val syms) = (val ! i, syms ! i) # drop (Suc i) (zip val syms)"
proof -
  assume i: "i < length val"
  then have "i < length (zip val syms)" by (simp add: length_syms)
  then have "drop i (zip val syms) = zip val syms ! i # drop (Suc i) (zip val syms)"
    by (rule Cons_nth_drop_Suc[symmetric])
  with i show ?thesis by (simp add: length_syms)
qed

lemma roman_while_greedy:
  "0 \<le> n \<Longrightarrow> i < length val \<or> n = 0 \<Longrightarrow>
   roman_while i (r, n) = Inr (r @ greedy (drop i (zip val syms)) n)"
proof (induction i "(r, n)" arbitrary: r n rule: roman_while.induct)
  case (1 i r n)
  show ?case
  proof (cases "n > 0")
    case False
    with 1(2) have n0: "n = 0" by simp
    have "greedy t 0 = []" for t by (induction t) auto
    with n0 show ?thesis by (simp add: roman_while.simps[of i])
  next
    case True
    with 1(3) have i: "i < length val" by simp
    let ?v = "val ! i"
    have vpos: "0 < ?v" using i by (rule val_pos)
    let ?k = "nat (n div ?v)"
    have k: "int ?k = n div ?v" using True vpos by (simp add: pos_imp_zdiv_nonneg_iff)
    have "n - (n div ?v) * ?v = n mod ?v" by (rule minus_div_mult_eq_mod)
    then have rem: "n - int ?k * ?v = n mod ?v" by (simp only: k)
    have rf: "roman_for i ?k (r, n) = (r @ concat (replicate ?k (syms ! i)), n mod ?v)"
      by (simp only: roman_for_eq rem)
    have nonneg: "0 \<le> n mod ?v" using vpos by simp
    have next_ok: "i + 1 < length val \<or> n mod ?v = 0"
    proof (cases "i + 1 < length val")
      case False
      with i have "i = 12" by (simp add: val_def)
      then show ?thesis by (simp add: val_last)
    qed simp
    have "roman_while (i + 1) (r @ concat (replicate ?k (syms ! i)), n mod ?v)
          = Inr ((r @ concat (replicate ?k (syms ! i))) @ greedy (drop (i + 1) (zip val syms)) (n mod ?v))"
      using 1(1)[OF True i rf nonneg next_ok] .
    then show ?thesis
      using True i by (simp add: rf drop_table roman_while.simps[of i])
  qed
qed

lemma roman_value_nonneg: "0 \<le> roman_value c"
  by (simp add: roman_value_def)

lemma hdval_nonneg: "0 \<le> hdval s"
  by (cases s) (simp_all add: hdval_def roman_value_nonneg)

lemma parse_single:
  "hdval rest \<le> roman_value c \<Longrightarrow> roman_to_int (c # rest) = roman_value c + roman_to_int rest"
  by (cases rest) (simp_all add: hdval_def)

lemma parse_replicate:
  assumes add: "\<And>rest. hdval rest \<le> L \<Longrightarrow> roman_to_int (s @ rest) = v + roman_to_int rest"
    and s: "s \<noteq> []" "hdval s \<le> L" and rest: "hdval rest \<le> L"
  shows "roman_to_int (concat (replicate k s) @ rest) = int k * v + roman_to_int rest
         \<and> hdval (concat (replicate k s) @ rest) \<le> L"
proof (induction k)
  case 0
  show ?case using rest by simp
next
  case (Suc k)
  have hd: "hdval (s @ x) = hdval s" for x using s(1) by (cases s) (simp_all add: hdval_def)
  from Suc add[of "concat (replicate k s) @ rest"] show ?case
    using s(2) by (simp add: hd algebra_simps)
qed

lemma hdval_append: "hdval (a @ b) = (if a = [] then hdval b else hdval a)"
  by (cases a) (simp_all add: hdval_def)

lemma additive_greedy:
  "additive cap t \<Longrightarrow> 0 \<le> cap \<Longrightarrow> 0 \<le> n \<Longrightarrow>
   roman_to_int (greedy t n) = n - leftover t n \<and> hdval (greedy t n) \<le> cap"
proof (induction t arbitrary: cap n)
  case Nil
  then show ?case by (simp add: hdval_def)
next
  case (Cons p t)
  obtain v s where p: "p = (v, s)" by (cases p)
  let ?L = "roman_value (last s)"
  from Cons.prems p have a: "additive (min cap ?L) t" and s: "s \<noteq> []" "hdval s \<le> ?L"
    and c: "hdval s \<le> cap"
    and add: "\<And>rest. hdval rest \<le> ?L \<Longrightarrow> roman_to_int (s @ rest) = v + roman_to_int rest"
    and v: "0 < v"
    by simp_all
  have cap': "0 \<le> min cap ?L" using Cons.prems(2) by (simp add: roman_value_nonneg)
  have m: "0 \<le> n mod v" using v by simp
  from Cons.IH[OF a cap' m]
  have ih: "roman_to_int (greedy t (n mod v)) = n mod v - leftover t (n mod v)"
    and hd: "hdval (greedy t (n mod v)) \<le> ?L" "hdval (greedy t (n mod v)) \<le> cap" by simp_all
  let ?k = "nat (n div v)"
  from parse_replicate[OF add s hd(1), of ?k]
  have r: "roman_to_int (concat (replicate ?k s) @ greedy t (n mod v))
            = int ?k * v + roman_to_int (greedy t (n mod v))" by simp
  have k: "int ?k = n div v" using Cons.prems(3) v by (simp add: pos_imp_zdiv_nonneg_iff)
  have split: "n div v * v + n mod v = n" by simp
  have "roman_to_int (greedy (p # t) n) = int ?k * v + roman_to_int (greedy t (n mod v))"
    using r by (simp only: p greedy.simps)
  also have "\<dots> = n div v * v + (n mod v - leftover t (n mod v))"
    by (simp only: k ih)
  also have "\<dots> = n - leftover (p # t) n"
    using split unfolding p leftover.simps by linarith
  finally have val: "roman_to_int (greedy (p # t) n) = n - leftover (p # t) n" .
  have "hdval (greedy (p # t) n) \<le> cap"
  proof (cases ?k)
    case 0
    then show ?thesis using hd(2) by (simp add: p)
  next
    case (Suc j)
    then show ?thesis using c s(1) by (simp add: p hdval_append)
  qed
  with val show ?case by simp
qed

lemma greedy_chars: "(\<And>v s. (v, s) \<in> set t \<Longrightarrow> set s \<subseteq> A) \<Longrightarrow> set (greedy t n) \<subseteq> A"
proof (induction t arbitrary: n)
  case Nil
  show ?case by simp
next
  case (Cons p t)
  obtain v s where p: "p = (v, s)" by (cases p)
  have "set s \<subseteq> A" using Cons.prems[of v s] by (simp add: p)
  moreover have "set (greedy t (n mod v)) \<subseteq> A"
  proof (rule Cons.IH)
    fix v' s' assume "(v', s') \<in> set t"
    then show "set s' \<subseteq> A" using Cons.prems[of v' s'] by simp
  qed
  ultimately show ?case by (auto simp: p)
qed

lemma rv_simps:
  "roman_value 73 = 1" "roman_value 86 = 5" "roman_value 88 = 10" "roman_value 76 = 50"
  "roman_value 67 = 100" "roman_value 68 = 500" "roman_value 77 = 1000"
  by (simp_all add: roman_value_def)

lemma hdval_Cons: "hdval (c # s) = roman_value c"
  by (simp add: hdval_def)

lemma additive_table: "additive 1000 (zip val syms)"
  by (simp add: val_def syms_def U_def hdval_Cons rv_simps parse_single)

lemma leftover_table: "leftover (zip val syms) n = 0"
  unfolding val_def syms_def by (simp only: zip_Cons_Cons zip_Nil leftover.simps mod_by_1)

lemma syms_chars: "s \<in> set syms \<Longrightarrow> set s \<subseteq> set (U ''MDCLXVI'')"
  unfolding syms_def U_def by (simp, elim disjE) simp_all

lemma table_chars: "(v, s) \<in> set (zip val syms) \<Longrightarrow> set s \<subseteq> set (U ''MDCLXVI'')"
  using syms_chars by (blast dest: set_zip_rightD)

lemma roman_numeral_nonneg:
  assumes "0 \<le> n"
  shows "\<exists>s. roman_numeral n = Inr s \<and> set s \<subseteq> set (U ''MDCLXVI'') \<and> roman_to_int s = n"
proof -
  have "roman_numeral n = Inr (greedy (zip val syms) n)"
    using roman_while_greedy[OF assms, of 0 "[]"] by (simp add: roman_numeral_def val_def)
  moreover have "roman_to_int (greedy (zip val syms) n) = n"
    using additive_greedy[OF additive_table _ assms] by (simp add: leftover_table)
  moreover have "set (greedy (zip val syms) n) \<subseteq> set (U ''MDCLXVI'')"
    by (rule greedy_chars) (rule table_chars)
  ultimately show ?thesis by blast
qed

lemma roman_numeral_nonpos: "n \<le> 0 \<Longrightarrow> roman_numeral n = Inr []"
  by (simp add: roman_numeral_def roman_while.simps[of 0])

text \<open>
  Claim C10. \<open>roman_numeral\<close> returns for every integer and never reads its tables out
  of bounds: the result is always a string, never the \<^verbatim>\<open>IndexError\<close> of \<^verbatim>\<open>val[i]\<close>.
  For \<open>n \<le> 0\<close> the loop body is not entered and the empty string is returned. For
  \<open>n > 0\<close> the round at the last index, whose value is 1, leaves the remainder 0, so
  the loop ends before the index passes the last entry.
\<close>

theorem roman_numeral_returns:
  "(\<exists>s. roman_numeral n = Inr s) \<and>
   (n \<le> 0 \<longrightarrow> roman_numeral n = Inr []) \<and>
   (0 < n \<longrightarrow> snd (roman_for 12 (nat (n div val ! 12)) (r, n)) = 0)"
proof (intro conjI impI)
  show "\<exists>s. roman_numeral n = Inr s"
  proof (cases "0 \<le> n")
    case True
    from roman_numeral_nonneg[OF this] show ?thesis by blast
  next
    case False
    then show ?thesis by (simp add: roman_numeral_nonpos)
  qed
next
  assume "n \<le> 0"
  then show "roman_numeral n = Inr []" by (rule roman_numeral_nonpos)
next
  assume "0 < n"
  then show "snd (roman_for 12 (nat (n div val ! 12)) (r, n)) = 0"
    by (simp add: roman_for_eq val_last)
qed

theorem roman_numeral_returns_witness:
  "(\<exists>s. roman_numeral (- 3) = Inr s) \<and> (- 3::int) \<le> 0 \<and> roman_numeral (- 3) = Inr [] \<and>
   (0::int) < 4 \<and> snd (roman_for 12 (nat (4 div val ! 12)) ([], 4)) = 0"
  using roman_numeral_returns[of "- 3" "[]"] roman_numeral_returns[of 4 "[]"] by simp

text \<open>
  Claim C5. For every integer \<open>n\<close> from 1 to 3999, \<open>roman_numeral n\<close> is a string of the
  characters M, D, C, L, X, V, I only, and the standard Roman-to-integer parser maps it
  back to \<open>n\<close>.
\<close>

theorem roman_numeral_roundtrip:
  "1 \<le> n \<Longrightarrow> n \<le> 3999 \<Longrightarrow>
   \<exists>s. roman_numeral n = Inr s \<and> set s \<subseteq> set (U ''MDCLXVI'') \<and> roman_to_int s = n"
  using roman_numeral_nonneg[of n] by simp

theorem roman_numeral_roundtrip_witness:
  "(1::int) \<le> 1994 \<and> (1994::int) \<le> 3999 \<and>
   (\<exists>s. roman_numeral 1994 = Inr s \<and> set s \<subseteq> set (U ''MDCLXVI'') \<and> roman_to_int s = 1994)"
  using roman_numeral_roundtrip[of 1994] by simp

section \<open>Properties of \<open>fetch_books\<close>\<close>

lemma get_checked_Raises: "net k u ps = Raises e \<Longrightarrow> get_checked net k u ps = Inl e"
  by (simp add: get_checked_def)

lemma raise_for_status_error:
  "400 \<le> status_code r \<Longrightarrow> status_code r < 600 \<Longrightarrow> \<exists>e. raise_for_status r = Some e"
  by (simp add: raise_for_status_def)

lemma raise_for_status_ok:
  "\<not> (400 \<le> status_code r \<and> status_code r < 600) \<Longrightarrow> raise_for_status r = None"
  by (auto simp add: raise_for_status_def)

lemma fetch_books_Inl:
  "get_checked net 0 base_url (params language limit kw) = Inl e \<Longrightarrow>
   fetch_books net language limit kw w = (Inr (JArr []), print (U ''Error fetching data: '' @ e) w)"
  by (simp add: fetch_books_def)

lemma fetch_books_Inr:
  "get_checked net 0 base_url (params language limit kw) = Inr r \<Longrightarrow> resp_json r = Inr body \<Longrightarrow>
   fetch_books net language limit kw w =
     (case subscript_key body (U ''results'') of Inl e \<Rightarrow> (Inl e, w) | Inr v \<Rightarrow> (Inr v, w))"
  by (auto simp add: fetch_books_def subscript_key_def split: json.splits option.splits)

text \<open>
  Claim C4. When the request fails in transport, or comes back with an error status
  (400 to 599, the statuses for which \<^verbatim>\<open>raise_for_status\<close> raises), \<open>fetch_books\<close> returns
  the empty list and raises nothing. Otherwise it returns the \<^verbatim>\<open>results\<close> member of the
  parsed body, and when the body is an object without that key the \<^verbatim>\<open>KeyError\<close> goes
  to the caller.
\<close>

theorem fetch_books_outcomes:
  "(net 0 base_url (params language limit kw) = Raises e \<longrightarrow>
      fst (fetch_books net language limit kw w) = Inr (JArr [])) \<and>
   (net 0 base_url (params language limit kw) = Returns r \<and>
      400 \<le> status_code r \<and> status_code r < 600 \<longrightarrow>
      fst (fetch_books net language limit kw w) = Inr (JArr [])) \<and>
   (net 0 base_url (params language limit kw) = Returns r \<and>
      \<not> (400 \<le> status_code r \<and> status_code r < 600) \<and>
      resp_json r = Inr (JObj kvs) \<and> map_of kvs (U ''results'') = Some v \<longrightarrow>
      fetch_books net language limit kw w = (Inr v, w)) \<and>
   (net 0 base_url (params language limit kw) = Returns r \<and>
      \<not> (400 \<le> status_code r \<and> status_code r < 600) \<and>
      resp_json r = Inr (JObj kvs) \<and> map_of kvs (U ''results'') = None \<longrightarrow>
      fetch_books net language limit kw w = (Inl (KeyError (U ''results'')), w))"
proof (intro conjI impI)
  assume "net 0 base_url (params language limit kw) = Raises e"
  then show "fst (fetch_books net language limit kw w) = Inr (JArr [])"
    by (simp add: fetch_books_Inl get_checked_Raises)
next
  assume a: "net 0 base_url (params language limit kw) = Returns r \<and>
      400 \<le> status_code r \<and> status_code r < 600"
  then obtain m where "raise_for_status r = Some m" using raise_for_status_error by blast
  with a have "get_checked net 0 base_url (params language limit kw) = Inl m"
    by (simp add: get_checked_def)
  then show "fst (fetch_books net language limit kw w) = Inr (JArr [])"
    by (simp add: fetch_books_Inl)
next
  assume a: "net 0 base_url (params language limit kw) = Returns r \<and>
      \<not> (400 \<le> status_code r \<and> status_code r < 600) \<and>
      resp_json r = Inr (JObj kvs) \<and> map_of kvs (U ''results'') = Some v"
  then have "get_checked net 0 base_url (params language limit kw) = Inr r"
    by (simp add: get_checked_def raise_for_status_ok)
  with a show "fetch_books net language limit kw w = (Inr v, w)"
    by (simp add: fetch_books_Inr subscript_key_def)
next
  assume a: "net 0 base_url (params language limit kw) = Returns r \<and>
      \<not> (400 \<le> status_code r \<and> status_code r < 600) \<and>
      resp_json r = Inr (JObj kvs) \<and> map_of kvs (U ''results'') = None"
  then have "get_checked net 0 base_url (params language limit kw) = Inr r"
    by (simp add: get_checked_def raise_for_status_ok)
  with a show "fetch_books net language limit kw w = (Inl (KeyError (U ''results'')), w)"
    by (simp add: fetch_books_Inr subscript_key_def)
qed

theorem fetch_books_outcomes_witness:
  "fst (fetch_books (\<lambda>k u ps. Raises (U ''timed out'')) (U ''en'') 10 [] empty_world) = Inr (JArr []) \<and>
   fst (fetch_books (\<lambda>k u ps. Returns (ok_response 404 JNull)) (U ''en'') 10 [] empty_world) = Inr (JArr []) \<and>
   fetch_books (\<lambda>k u ps. Returns (ok_response 200 (JObj [(U ''results'', JArr [JNull])])))
      (U ''en'') 10 [] empty_world = (Inr (JArr [JNull]), empty_world) \<and>
   fetch_books (\<lambda>k u ps. Returns (ok_response 200 (JObj [(U ''count'', JNum 0)])))
      (U ''en'') 10 [] empty_world = (Inl (KeyError (U ''results'')), empty_world)"
  using
    fetch_books_outcomes[where net = "\<lambda>k u ps. Raises (U ''timed out'')" and e = "U ''timed out''"
      and language = "U ''en''" and limit = 10 and kw = "[]" and w = empty_world]
    fetch_books_outcomes[where net = "\<lambda>k u ps. Returns (ok_response 404 JNull)"
      and r = "ok_response 404 JNull"
      and language = "U ''en''" and limit = 10 and kw = "[]" and w = empty_world]
    fetch_books_outcomes[where net = "\<lambda>k u ps. Returns (ok_response 200 (JObj [(U ''results'', JArr [JNull])]))"
      and r = "ok_response 200 (JObj [(U ''results'', JArr [JNull])])"
      and kvs = "[(U ''results'', JArr [JNull])]" and v = "JArr [JNull]"
      and language = "U ''en''" and limit = 10 and kw = "[]" and w = empty_world]
    fetch_books_outcomes[where net = "\<lambda>k u ps. Returns (ok_response 200 (JObj [(U ''count'', JNum 0)]))"
      and r = "ok_response 200 (JObj [(U ''count'', JNum 0)])"
      and kvs = "[(U ''count'', JNum 0)]"
      and language = "U ''en''" and limit = 10 and kw = "[]" and w = empty_world]
  by (simp add: ok_response_def U_def)


section \<open>Properties of \<open>download_book\<close>\<close>

lemma download_book_no_url:
  "book_author b = Inr a \<Longrightarrow> book_language b = Inr l \<Longrightarrow> \<not> truthy (book_download_url b) \<Longrightarrow>
   download_book fs net b out w =
     (None, print (U ''No downloadable format found for '' @ book_title b @ U '' by '' @ a) w)"
  by (simp add: download_book_def truthy_def split: option.splits)


lemma download_book_raises_author:
  "book_author b = Inl e \<Longrightarrow> download_book fs net b out w = (Some e, w)"
  by (simp add: download_book_def)

lemma download_book_raises_language:
  "book_author b = Inr a \<Longrightarrow> book_language b = Inl e \<Longrightarrow>
   download_book fs net b out w = (Some e, w)"
  by (simp add: download_book_def)

lemma book_author_empty: "key_authors b = Some [] \<Longrightarrow> book_author b = Inl IndexError"
  by (simp add: book_author_def get_default_def subscript0_def)

lemma book_language_empty: "key_languages b = Some [] \<Longrightarrow> book_language b = Inl IndexError"
  by (simp add: book_language_def get_default_def subscript0_def)

lemma print_fs: "dirs (print l w) = dirs w" "files (print l w) = files w"
  by (simp_all add: print_def)

lemma download_book_no_format_fs:
  "\<not> truthy (book_download_url b) \<Longrightarrow>
   dirs (snd (download_book fs net b out w)) = dirs w \<and>
   files (snd (download_book fs net b out w)) = files w"
  by (cases "book_author b"; cases "book_language b")
     (simp_all add: download_book_no_url download_book_raises_author download_book_raises_language print_fs)

text \<open>
  Claim C2. The claim says that \<open>download_book\<close> raises nothing to its caller, also for a
  record whose \<^verbatim>\<open>authors\<close> or \<^verbatim>\<open>languages\<close> is an empty list. For such records the
  subscript \<^verbatim>\<open>[0]\<close> of line 51 or 52, before the \<^verbatim>\<open>try\<close>, raises \<^verbatim>\<open>IndexError\<close> to the
  caller, whatever the network and the file system are.
\<close>

theorem download_book_empty_list_raises:
  "download_book fs net book_no_authors out w = (Some IndexError, w) \<and>
   download_book fs net book_no_languages out w = (Some IndexError, w)"
proof
  have "book_author book_no_authors = Inl IndexError"
    by (rule book_author_empty) (simp add: book_no_authors_def)
  then show "download_book fs net book_no_authors out w = (Some IndexError, w)"
    by (rule download_book_raises_author)
next
  have "book_author book_no_languages = Inr (U ''Anonymous'')"
    by (simp add: book_author_def book_no_languages_def get_default_def subscript0_def replace_def
        U_def sep_def)
  moreover have "book_language book_no_languages = Inl IndexError"
    by (rule book_language_empty) (simp add: book_no_languages_def)
  ultimately show "download_book fs net book_no_languages out w = (Some IndexError, w)"
    by (rule download_book_raises_language)
qed

text \<open>
  Claim C7. The claim says that for every record without a usable \<^verbatim>\<open>text/plain\<close> or
  \<^verbatim>\<open>text/html\<close> entry \<open>download_book\<close> prints and returns. A record without such an entry
  and with an empty \<^verbatim>\<open>authors\<close> list does not reach the test of line 55: the call raises
  \<^verbatim>\<open>IndexError\<close>. (No file or directory is made for any record without a usable entry:
  \<open>download_book_no_format_fs\<close>; the line is printed when author and language are
  found: \<open>download_book_no_url\<close>.)
\<close>

theorem download_book_no_format_raises:
  "truthy (book_download_url book_no_authors_no_format) = False \<and>
   download_book fs net book_no_authors_no_format out w = (Some IndexError, w)"
proof
  show "truthy (book_download_url book_no_authors_no_format) = False"
    by (simp add: book_download_url_def book_no_authors_no_format_def get_default_def py_or_def
        truthy_def U_def)
next
  have "book_author book_no_authors_no_format = Inl IndexError"
    by (rule book_author_empty) (simp add: book_no_authors_no_format_def)
  then show "download_book fs net book_no_authors_no_format out w = (Some IndexError, w)"
    by (rule download_book_raises_author)
qed


subsection \<open>A file system that refuses a call\<close>

lemma and_then_simps:
  "and_then (None, w) f = f w" "and_then (Some e, w) f = (Some e, w)"
  by (simp_all add: and_then_def)






lemma roman_numeral_succ: "\<exists>r. roman_numeral (int i + 1) = Inr r"
  using roman_numeral_nonneg[of "int i + 1"] by auto





subsection \<open>The run on a file system that carries out every call\<close>

lemma makedirs_ok: "makedirs fs_ok p w = (None, made_dirs p w)"
  by (simp add: makedirs_def fs_ok_def)

lemma write_file_ok: "write_file fs_ok p c w = (None, written p c w)"
  by (simp add: write_file_def fs_ok_def)


lemma written_fs: "dirs (written p c w) = dirs w" "stdout (written p c w) = stdout w"
  "files (written p c w) q = (if q = p then Some c else files w q)"
  by (simp_all add: written_def)

lemma print_files: "files (print l w) = files w" and print_dirs: "dirs (print l w) = dirs w"
  and print_stdout: "stdout (print l w) = stdout w @ [l]"
  by (simp_all add: print_def)



lemma save_chapters_step:
  "roman_numeral (int i + 1) = Inr r \<Longrightarrow>
   save_chapters fs_ok bf i (c # cs) w =
     save_chapters fs_ok bf (i + 1) cs
       (written (path_join (path_join bf (U ''Chapter_'' @ r)) (U ''Chapter_'' @ r @ U ''.txt''))
          (Text c) (made_dirs (path_join bf (U ''Chapter_'' @ r)) w))"
  by (simp add: Let_def makedirs_ok write_file_ok and_then_simps)

lemma download_images_step:
  "download_images fs_ok net imf t a idx (u # us) w =
     download_images fs_ok net imf t a (idx + 1) us
       (case get_checked net (idx + 1) u [] of
          Inr r \<Rightarrow> written (image_path imf idx) (Bytes (resp_content r)) w
        | Inl e \<Rightarrow> print (image_error_line t a idx e) w)"
  by (simp add: write_file_ok and_then_simps split: sum.split)

lemma save_chapters_returns: "fst (save_chapters fs_ok bf i cs w) = None"
proof (induction cs arbitrary: i w)
  case Nil
  show ?case by simp
next
  case (Cons c cs)
  obtain r where "roman_numeral (int i + 1) = Inr r" using roman_numeral_succ by blast
  then show ?case using Cons.IH by (simp only: save_chapters_step)
qed




lemma download_images_returns: "fst (download_images fs_ok net imf t a idx us w) = None"
  by (induction us arbitrary: idx w) (simp_all only: download_images_step, simp)




lemma chapter_entries_length: "\<exists>es. chapter_entries i k = Inr es \<and> length es = k"
proof (induction k arbitrary: i)
  case 0
  show ?case by simp
next
  case (Suc k)
  obtain r where r: "roman_numeral (int i + 1) = Inr r" using roman_numeral_succ by blast
  from Suc[of "i + 1"] obtain es where "chapter_entries (i + 1) k = Inr es" "length es = k" by blast
  with r show ?case by simp
qed

lemma image_entries_map:
  "image_entries idx k =
     map (\<lambda>j. JStr (U ''images/image_'' @ str_nat (j + 1) @ U ''.jpg'')) [idx..<idx + k]"
proof (induction k arbitrary: idx)
  case 0
  show ?case by simp
next
  case (Suc k)
  have "path_join (U ''images'') (U ''image_'' @ str_nat (idx + 1) @ U ''.jpg'')
        = U ''images/image_'' @ str_nat (idx + 1) @ U ''.jpg''"
    by (simp add: path_join_def startswith_def U_def sep_def)
  then show ?case using Suc[of "idx + 1"] by (simp add: upt_rec[of idx])
qed



text \<open>The world after a download whose main request succeeded.\<close>

lemma try_body_success:
  assumes "get_checked net 0 u [] = Inr resp"
  shows "\<exists>es. chapter_entries 0 (length (re_split chapter_pattern (resp_text resp))) = Inr es \<and>
     try_body fs_ok net b out t a l u w =
       (None,
        print (U ''Downloaded: '' @ t @ U '' by '' @ a)
          (written (path_join (path_join out (folder_name t a)) (U ''metadata.json''))
             (JsonLine (metadata t a l u (path_join (path_join out (folder_name t a)) (file_name t a))
                  es (image_entries 0 (length (image_urls_of b)))))
             (snd (download_images fs_ok net (path_join (path_join out (folder_name t a)) (U ''images''))
                t a 0 (image_urls_of b)
                (made_dirs (path_join (path_join out (folder_name t a)) (U ''images''))
                   (snd (save_chapters fs_ok (path_join out (folder_name t a)) 0
                      (re_split chapter_pattern (resp_text resp))
                      (written (path_join (path_join out (folder_name t a)) (file_name t a))
                         (Text (resp_text resp))
                         (made_dirs (path_join out (folder_name t a)) w)))))))))"
proof -
  obtain es where es: "chapter_entries 0 (length (re_split chapter_pattern (resp_text resp))) = Inr es"
    using chapter_entries_length by blast
  have sc: "save_chapters fs_ok bf i cs w0 = (None, snd (save_chapters fs_ok bf i cs w0))" for bf i cs w0
    using save_chapters_returns[of bf i cs w0] by (simp add: prod_eq_iff)
  have di: "download_images fs_ok net imf t a i us w0
      = (None, snd (download_images fs_ok net imf t a i us w0))" for imf i us w0
    using download_images_returns[of net imf t a i us w0] by (simp add: prod_eq_iff)
  show ?thesis
    apply (rule exI[of _ es])
    apply (simp add: es)
    apply (simp only: try_body_def assms sum.case Let_def makedirs_ok write_file_ok and_then_simps)
    apply (subst sc)
    apply (simp only: and_then_simps makedirs_ok)
    apply (subst di)
    apply (simp only: and_then_simps es sum.case write_file_ok)
    done
qed

lemma download_book_success:
  assumes "book_author b = Inr a" "book_language b = Inr l" "book_download_url b = Some u" "u \<noteq> []"
    and "get_checked net 0 u [] = Inr resp"
  shows "\<exists>es. chapter_entries 0 (length (re_split chapter_pattern (resp_text resp))) = Inr es \<and>
     download_book fs_ok net b out w = (None, run_world net b out a l u resp es w)"
proof -
  from try_body_success[OF assms(5), of b out "book_title b" a l w]
  obtain es where es: "chapter_entries 0 (length (re_split chapter_pattern (resp_text resp))) = Inr es"
    and tb: "try_body fs_ok net b out (book_title b) a l u w = (None, run_world net b out a l u resp es w)"
    unfolding run_world_def book_folder_of_def by blast
  have "download_book fs_ok net b out w = try_body fs_ok net b out (book_title b) a l u w"
    using assms(1-4) by (simp add: download_book_def tb Let_def)
  with es tb show ?thesis by simp
qed


text \<open>A refused call reaches the caller: the handler of line 125 does not catch it.\<close>

lemma download_book_refused:
  assumes "book_author b = Inr a" "book_language b = Inr l" "book_download_url b = Some u" "u \<noteq> []"
    and "get_checked net 0 u [] = Inr resp"
    and "fs (Makedirs (book_folder_of out (book_title b) a)) w = Some (e, w')"
  shows "download_book fs net b out w = (Some (FileError e), w')"
  using assms
  by (simp add: download_book_def try_body_def Let_def makedirs_def and_then_simps book_folder_of_def)






lemma roman_numeral_1: "roman_numeral 1 = Inr (U ''I'')"
  by (simp add: roman_numeral_def roman_while.simps val_def syms_def U_def)












subsection \<open>The image loop\<close>







lemma str_nat_small:
  "str_nat 1 = U ''1''" "str_nat (Suc 0) = U ''1''" "str_nat 2 = U ''2''" "str_nat (Suc (Suc 0)) = U ''2''"
  "str_nat 3 = U ''3''"
  by (simp_all add: str_nat.simps U_def)



subsection \<open>The example runs\<close>

lemma book_tale_fields:
  "book_title book_tale = U ''A Tale: of''"
  "book_author book_tale = Inr (U ''Dickens, Charles'')"
  "book_language book_tale = Inr (U ''en'')"
  "book_download_url book_tale = Some (U ''http://example.org/98.txt'')"
  "image_urls_of book_tale = [U ''http://example.org/98.jpg'', U ''http://example.org/98.png'']"
  by (simp_all add: book_tale_def book_title_def book_author_def book_language_def
      book_download_url_def image_urls_of_def get_default_def subscript0_def replace_def
      py_or_def truthy_def startswith_def sep_def U_def)


lemma text_response_ok: "raise_for_status (text_response t) = None"
  by (simp add: raise_for_status_def text_response_def)

lemma net_ok_checked: "get_checked net_ok k u ps = Inr (text_response example_body)"
  by (simp add: get_checked_def net_ok_def text_response_ok)


lemma example_split: "re_split chapter_pattern example_body = [example_body]"
  by (simp add: re_split_def chapter_pattern_def literal_def example_body_def U_def)

lemma example_split_spec:
  "re_split spec_chapter_pattern example_body = [U ''Intro text '', U '' body one '', U '' body two'']"
  by (simp add: re_split_def spec_chapter_pattern_def literal_def example_body_def U_def
      is_space_def is_digit_def)



lemma tale_folder: "book_folder_of (U ''output'') (U ''A Tale: of'') (U ''Dickens, Charles'')
   = U ''output/A Tale of - Dickens, Charles''"
  by (simp add: book_folder_of_def folder_name_def sanitize_def reserved_def path_join_def
      startswith_def sep_def U_def)

lemma chapter_entries_one:
  "chapter_entries 0 (Suc 0) =
     Inr [JObj [(U ''chapter_number'', JStr (U ''I'')),
                (U ''local_file_path'', JStr (U ''Chapter_I/Chapter_I.txt''))]]"
  by (simp add: roman_numeral_1 path_join_def startswith_def sep_def U_def)

lemma save_chapters_one:
  "save_chapters fs_ok bf 0 [c] w =
     (None, written (path_join (path_join bf (U ''Chapter_I'')) (U ''Chapter_I.txt'')) (Text c)
              (made_dirs (path_join bf (U ''Chapter_I'')) w))"
proof -
  have r: "roman_numeral (int 0 + 1) = Inr (U ''I'')" using roman_numeral_1 by simp
  have s: "U ''Chapter_'' @ U ''I'' = U ''Chapter_I''"
    "U ''Chapter_'' @ U ''I'' @ U ''.txt'' = U ''Chapter_I.txt''"
    by (simp_all add: U_def)
  show ?thesis by (simp only: save_chapters_step[OF r] save_chapters.simps(1) s)
qed

lemma tale_url: "U ''http://example.org/98.txt'' \<noteq> []"
  by (simp add: U_def)



lemma tale_run:
  "download_book fs_ok net_ok book_tale (U ''output'') empty_world =
     (None,
      print (U ''Downloaded: A Tale: of by Dickens, Charles'')
        (written (U ''output/A Tale of - Dickens, Charles/metadata.json'')
           (JsonLine (metadata (U ''A Tale: of'') (U ''Dickens, Charles'') (U ''en'')
                (U ''http://example.org/98.txt'')
                (U ''output/A Tale of - Dickens, Charles/A Tale of-Dickens, Charles.html'')
                [JObj [(U ''chapter_number'', JStr (U ''I'')),
                       (U ''local_file_path'', JStr (U ''Chapter_I/Chapter_I.txt''))]]
                [JStr (U ''images/image_1.jpg''), JStr (U ''images/image_2.jpg'')]))
           (written (U ''output/A Tale of - Dickens, Charles/images/image_2.jpg'') (Bytes example_body)
              (written (U ''output/A Tale of - Dickens, Charles/images/image_1.jpg'') (Bytes example_body)
                 (made_dirs (U ''output/A Tale of - Dickens, Charles/images'')
                    (written (U ''output/A Tale of - Dickens, Charles/Chapter_I/Chapter_I.txt'')
                       (Text example_body)
                       (made_dirs (U ''output/A Tale of - Dickens, Charles/Chapter_I'')
                          (written
                             (U ''output/A Tale of - Dickens, Charles/A Tale of-Dickens, Charles.html'')
                             (Text example_body)
                             (made_dirs (U ''output/A Tale of - Dickens, Charles'') empty_world)))))))))"
proof -
  have tr: "resp_text (text_response example_body) = example_body"
    "resp_content (text_response example_body) = example_body"
    by (simp_all add: text_response_def)
  have paths:
    "path_join (U ''output/A Tale of - Dickens, Charles'') (U ''metadata.json'')
       = U ''output/A Tale of - Dickens, Charles/metadata.json''"
    "path_join (U ''output/A Tale of - Dickens, Charles'') (file_name (U ''A Tale: of'') (U ''Dickens, Charles''))
       = U ''output/A Tale of - Dickens, Charles/A Tale of-Dickens, Charles.html''"
    "path_join (U ''output/A Tale of - Dickens, Charles'') (U ''images'')
       = U ''output/A Tale of - Dickens, Charles/images''"
    "path_join (U ''output/A Tale of - Dickens, Charles/images'') (U ''image_1.jpg'')
       = U ''output/A Tale of - Dickens, Charles/images/image_1.jpg''"
    "path_join (U ''output/A Tale of - Dickens, Charles/images'') (U ''image_2.jpg'')
       = U ''output/A Tale of - Dickens, Charles/images/image_2.jpg''"
    "path_join (U ''output/A Tale of - Dickens, Charles'') (U ''Chapter_I'')
       = U ''output/A Tale of - Dickens, Charles/Chapter_I''"
    "path_join (U ''output/A Tale of - Dickens, Charles/Chapter_I'') (U ''Chapter_I.txt'')
       = U ''output/A Tale of - Dickens, Charles/Chapter_I/Chapter_I.txt''"
    by (simp_all add: path_join_def startswith_def sep_def U_def file_name_def sanitize_def
        reserved_def str_nat_small)
  have ims: "image_entries 0 (length [u1, u2])
      = [JStr (U ''images/image_1.jpg''), JStr (U ''images/image_2.jpg'')]" for u1 u2 :: str
    by (simp add: image_entries_map str_nat_small U_def upt_rec)
  have n: "(0::nat) + 1 = 1" "(1::nat) + 1 = 2" by simp_all
  have s: "U ''image_'' @ U ''1'' @ U ''.jpg'' = U ''image_1.jpg''"
    "U ''image_'' @ U ''2'' @ U ''.jpg'' = U ''image_2.jpg''"
    by (simp_all add: U_def)
  have dl: "download_images fs_ok net_ok imf t a 0 [u1, u2] w =
      (None, written (path_join imf (U ''image_2.jpg'')) (Bytes example_body)
        (written (path_join imf (U ''image_1.jpg'')) (Bytes example_body) w))"
    for imf t a u1 u2 w
    by (simp only: download_images_step download_images.simps(1) n net_ok_checked sum.case tr
        image_path_def str_nat_small s)
  have msg: "U ''Downloaded: '' @ U ''A Tale: of'' @ U '' by '' @ U ''Dickens, Charles''
      = U ''Downloaded: A Tale: of by Dickens, Charles''"
    by (simp add: U_def)
  have sp: "re_split chapter_pattern (resp_text (text_response example_body)) = [example_body]"
    by (simp only: tr example_split)
  from download_book_success[OF book_tale_fields(2,3,4) tale_url net_ok_checked, of "U ''output''" empty_world]
  obtain es where es: "chapter_entries 0 (length (re_split chapter_pattern (resp_text (text_response example_body)))) = Inr es"
    and db: "download_book fs_ok net_ok book_tale (U ''output'') empty_world =
       (None, run_world net_ok book_tale (U ''output'') (U ''Dickens, Charles'') (U ''en'')
                (U ''http://example.org/98.txt'') (text_response example_body) es empty_world)"
    by blast
  have es1: "es = [JObj [(U ''chapter_number'', JStr (U ''I'')),
                       (U ''local_file_path'', JStr (U ''Chapter_I/Chapter_I.txt''))]]"
    using es chapter_entries_one by (simp add: sp)
  show ?thesis
    by (simp only: db run_world_def es1 sp book_tale_fields tale_folder tr example_split
        save_chapters_one snd_conv paths dl ims msg)
qed

text \<open>
  Claim C1. The claim expects three segments for the body
  \<^verbatim>\<open>Intro text Chapter 1 body one Chapter 2 body two\<close>, the directories \<^verbatim>\<open>Chapter_I\<close>,
  \<^verbatim>\<open>Chapter_II\<close>, \<^verbatim>\<open>Chapter_III\<close> and three chapter entries. The pattern of the source asks
  for backslashes in the text, so it matches nowhere in this body: the split gives the
  whole body as one segment, the run (on a file system that carries out every call)
  creates \<^verbatim>\<open>Chapter_I\<close> alone, and the metadata has one chapter entry. (With the pattern
  as the specification words it the split gives the three segments:
  \<open>example_split_spec\<close>.)
\<close>

theorem chapter_split_example:
  "re_split chapter_pattern example_body = [example_body] \<and>
   fst (download_book fs_ok net_ok book_tale (U ''output'') empty_world) = None \<and>
   U ''output/A Tale of - Dickens, Charles/Chapter_I''
     \<in> dirs (snd (download_book fs_ok net_ok book_tale (U ''output'') empty_world)) \<and>
   U ''output/A Tale of - Dickens, Charles/Chapter_II''
     \<notin> dirs (snd (download_book fs_ok net_ok book_tale (U ''output'') empty_world)) \<and>
   U ''output/A Tale of - Dickens, Charles/Chapter_III''
     \<notin> dirs (snd (download_book fs_ok net_ok book_tale (U ''output'') empty_world)) \<and>
   files (snd (download_book fs_ok net_ok book_tale (U ''output'') empty_world))
     (U ''output/A Tale of - Dickens, Charles/metadata.json'')
     = Some (JsonLine (metadata (U ''A Tale: of'') (U ''Dickens, Charles'') (U ''en'')
                (U ''http://example.org/98.txt'')
                (U ''output/A Tale of - Dickens, Charles/A Tale of-Dickens, Charles.html'')
                [JObj [(U ''chapter_number'', JStr (U ''I'')),
                       (U ''local_file_path'', JStr (U ''Chapter_I/Chapter_I.txt''))]]
                [JStr (U ''images/image_1.jpg''), JStr (U ''images/image_2.jpg'')]))"
proof (intro conjI)
  show "re_split chapter_pattern example_body = [example_body]" by (rule example_split)
  show "fst (download_book fs_ok net_ok book_tale (U ''output'') empty_world) = None"
    by (simp only: tale_run fst_conv)
  have d: "dirs (snd (download_book fs_ok net_ok book_tale (U ''output'') empty_world)) =
     {U ''output'', U ''output/A Tale of - Dickens, Charles'',
      U ''output/A Tale of - Dickens, Charles/Chapter_I'',
      U ''output/A Tale of - Dickens, Charles/images''}"
    apply (simp only: tale_run snd_conv print_dirs)
    apply (simp add: written_def made_dirs_def empty_world_def U_def sep_def)
    apply blast
    done
  show "U ''output/A Tale of - Dickens, Charles/Chapter_I''
     \<in> dirs (snd (download_book fs_ok net_ok book_tale (U ''output'') empty_world))"
    by (simp only: d) simp
  show "U ''output/A Tale of - Dickens, Charles/Chapter_II''
     \<notin> dirs (snd (download_book fs_ok net_ok book_tale (U ''output'') empty_world))"
    by (simp only: d) (simp add: U_def)
  show "U ''output/A Tale of - Dickens, Charles/Chapter_III''
     \<notin> dirs (snd (download_book fs_ok net_ok book_tale (U ''output'') empty_world))"
    by (simp only: d) (simp add: U_def)
  show "files (snd (download_book fs_ok net_ok book_tale (U ''output'') empty_world))
     (U ''output/A Tale of - Dickens, Charles/metadata.json'')
     = Some (JsonLine (metadata (U ''A Tale: of'') (U ''Dickens, Charles'') (U ''en'')
                (U ''http://example.org/98.txt'')
                (U ''output/A Tale of - Dickens, Charles/A Tale of-Dickens, Charles.html'')
                [JObj [(U ''chapter_number'', JStr (U ''I'')),
                       (U ''local_file_path'', JStr (U ''Chapter_I/Chapter_I.txt''))]]
                [JStr (U ''images/image_1.jpg''), JStr (U ''images/image_2.jpg'')]))"
    by (simp add: tale_run print_files written_fs(3))
qed











end
